theory Spec2Isabelle
  imports Complex_Main
begin

section \<open>The Prompting synapse of \<^verbatim>\<open>examples/prompting.ipynb\<close>\<close>

text \<open>
  The notebook declares one message class, \<^verbatim>\<open>Prompting\<close>, and three callbacks
  (\<^verbatim>\<open>prompt\<close>, \<^verbatim>\<open>blacklist\<close>, \<^verbatim>\<open>priority\<close>) that it attaches to a server.
  Python objects are mutable and passed by reference, so the model keeps the objects in
  a store and every function of the notebook takes the reference of its \<^verbatim>\<open>synapse\<close>
  argument and the world, and returns its result together with the world it leaves.
\<close>

subsection \<open>Values, errors and the class\<close>

text \<open>
  The Python values that the three declared fields can hold or be offered: \<^verbatim>\<open>None\<close>, a
  \<^verbatim>\<open>str\<close>, a list of \<^verbatim>\<open>str\<close>. Other shapes (numbers, nested lists) are not modelled.
\<close>

datatype pyval = PyNone | PyStr string | PyList "string list"

text \<open>
  The exceptions of the model. \<open>TypeError f\<close>: field \<open>f\<close> has \<^verbatim>\<open>allow_mutation\<close> set
  to \<^verbatim>\<open>False\<close> and cannot be assigned. \<open>ValidationError fs\<close>: the values offered for
  the fields \<open>fs\<close> do not validate. \<open>ValueError f\<close>: the object has no field \<open>f\<close>.
  \<open>AttributeError f\<close>: the object has no attribute \<open>f\<close>.
\<close>

datatype error =
    TypeError string
  | ValidationError "string list"
  | ValueError string
  | AttributeError string

text \<open>
  \<^verbatim>\<open>
  class Prompting( bt.Synapse ):
      class Config: validate_assignment = True
      def deserialize( self ): return self.completion

      roles: List[str] = pydantic.Field(..., allow_mutation=False)
      messages: List[str] = pydantic.Field(..., allow_mutation=False)
      completion: str = None
  \<close>
  The fields that the base class of the library adds are not part of the notebook and
  are left out of the record; the one whose name the class body uses again is treated
  with \<^verbatim>\<open>required_hash_fields\<close> below.
\<close>

record Prompting =
  roles :: "string list"
  messages :: "string list"
  completion :: "string option"

type_synonym ref = nat

text \<open>
  The world: the objects by reference (every reference denotes an object, as in Python),
  the next unused reference, and the lines written by \<^verbatim>\<open>bt.logging.debug\<close>.
\<close>

record world =
  store :: "ref \<Rightarrow> Prompting"
  next_ref :: ref
  debug_log :: "string list"

subsection \<open>Field validation, construction and assignment\<close>

text \<open>
  Validation of a value offered for a \<^verbatim>\<open>List[str]\<close> field declared with \<^verbatim>\<open>...\<close>
  (required): the value must be there and be a list. The result \<open>None\<close> is a failed
  validation.
\<close>

fun validate_str_list :: "pyval option \<Rightarrow> string list option" where
  "validate_str_list (Some (PyList xs)) = Some xs"
| "validate_str_list _ = None"

text \<open>
  Validation of a value offered for \<^verbatim>\<open>completion: str = None\<close>: a missing value is
  the declared default \<^verbatim>\<open>None\<close>; \<^verbatim>\<open>None\<close> and a \<^verbatim>\<open>str\<close> validate; a list does not.
\<close>

fun validate_completion :: "pyval option \<Rightarrow> string option option" where
  "validate_completion None = Some None"
| "validate_completion (Some PyNone) = Some None"
| "validate_completion (Some (PyStr s)) = Some (Some s)"
| "validate_completion (Some (PyList xs)) = None"

text \<open>
  \<^verbatim>\<open>Prompting(**kw)\<close>: the object built from the keyword arguments, or the
  \<^verbatim>\<open>ValidationError\<close> naming the fields that failed, in the order of their declaration.
\<close>

definition Prompting_init :: "(string \<rightharpoonup> pyval) \<Rightarrow> error + Prompting" where
  "Prompting_init kw =
     (case (validate_str_list (kw ''roles''), validate_str_list (kw ''messages''),
            validate_completion (kw ''completion'')) of
        (Some r, Some m, Some c) \<Rightarrow> Inr \<lparr>roles = r, messages = m, completion = c\<rparr>
      | (r, m, c) \<Rightarrow>
          Inl (ValidationError
                 ((if r = None then [''roles''] else []) @
                  (if m = None then [''messages''] else []) @
                  (if c = None then [''completion''] else []))))"

text \<open>The constructor call in the world: a valid object gets the next reference.\<close>

definition Prompting_new :: "(string \<rightharpoonup> pyval) \<Rightarrow> world \<Rightarrow> (error + ref) \<times> world" where
  "Prompting_new kw w =
     (case Prompting_init kw of
        Inl e \<Rightarrow> (Inl e, w)
      | Inr obj \<Rightarrow>
          (Inr (next_ref w),
           w\<lparr>store := (store w)(next_ref w := obj), next_ref := Suc (next_ref w)\<rparr>))"

text \<open>
  Assignment \<^verbatim>\<open>obj.name = v\<close> under \<^verbatim>\<open>validate_assignment = True\<close>: a name that is
  not a field is refused, then a field declared with \<^verbatim>\<open>allow_mutation=False\<close> is
  refused, then the value is validated and stored.
\<close>

definition assign :: "Prompting \<Rightarrow> string \<Rightarrow> pyval \<Rightarrow> error + Prompting" where
  "assign obj name v =
     (if name \<in> set [''roles'', ''messages'', ''completion''] then
        if name = ''roles'' \<or> name = ''messages'' then Inl (TypeError name)
        else (case validate_completion (Some v) of
                None \<Rightarrow> Inl (ValidationError [''completion''])
              | Some c \<Rightarrow> Inr (obj\<lparr>completion := c\<rparr>))
      else Inl (ValueError name))"

text \<open>The assignment in the world: an exception leaves the world as it was.\<close>

definition setattr :: "ref \<Rightarrow> string \<Rightarrow> pyval \<Rightarrow> world \<Rightarrow> (error + unit) \<times> world" where
  "setattr syn name v w =
     (case assign (store w syn) name v of
        Inl e \<Rightarrow> (Inl e, w)
      | Inr obj \<Rightarrow> (Inr (), w\<lparr>store := (store w)(syn := obj)\<rparr>))"

text \<open>Reading \<^verbatim>\<open>getattr(obj, name)\<close> for the declared fields.\<close>

definition getattr :: "Prompting \<Rightarrow> string \<Rightarrow> error + pyval" where
  "getattr obj name =
     (if name = ''roles'' then Inr (PyList (roles obj))
      else if name = ''messages'' then Inr (PyList (messages obj))
      else if name = ''completion'' then
        Inr (case completion obj of None \<Rightarrow> PyNone | Some s \<Rightarrow> PyStr s)
      else Inl (AttributeError name))"

subsection \<open>Operations on the list that a field holds\<close>

text \<open>
  The values of \<^verbatim>\<open>roles\<close> and \<^verbatim>\<open>messages\<close> are Python lists, which are mutable
  objects: a method of the list changes it in place, without any assignment to the
  field and so without the assignment check. In the model the list of a field is held
  by that field alone, and changing it in place is writing the new value into the
  stored object directly.
\<close>

datatype list_field = Roles | Messages

fun field_name :: "list_field \<Rightarrow> string" where
  "field_name Roles = ''roles''"
| "field_name Messages = ''messages''"

fun field_list :: "list_field \<Rightarrow> Prompting \<Rightarrow> string list" where
  "field_list Roles obj = roles obj"
| "field_list Messages obj = messages obj"

fun extend_in_place :: "list_field \<Rightarrow> string list \<Rightarrow> Prompting \<Rightarrow> Prompting" where
  "extend_in_place Roles xs obj = obj\<lparr>roles := roles obj @ xs\<rparr>"
| "extend_in_place Messages xs obj = obj\<lparr>messages := messages obj @ xs\<rparr>"

text \<open>\<^verbatim>\<open>synapse.roles.append(x)\<close> and \<^verbatim>\<open>synapse.messages.append(x)\<close>: no exception.\<close>

definition list_append :: "ref \<Rightarrow> list_field \<Rightarrow> string \<Rightarrow> world \<Rightarrow> unit \<times> world" where
  "list_append syn f x w = ((), w\<lparr>store := (store w)(syn := extend_in_place f [x] (store w syn))\<rparr>)"

text \<open>
  The augmented assignment \<^verbatim>\<open>synapse.roles += xs\<close> (and the same for
  \<^verbatim>\<open>messages\<close>). Python reads the field, calls \<^verbatim>\<open>__iadd__\<close> of the list, which
  extends that list in place and returns it, and only then assigns the result to the
  field, which is the assignment of \<open>setattr\<close>.
\<close>

definition augmented_assign ::
  "ref \<Rightarrow> list_field \<Rightarrow> string list \<Rightarrow> world \<Rightarrow> (error + unit) \<times> world" where
  "augmented_assign syn f xs w =
     (let w1 = w\<lparr>store := (store w)(syn := extend_in_place f xs (store w syn))\<rparr>
      in setattr syn (field_name f) (PyList (field_list f (store w1 syn))) w1)"

subsection \<open>The methods of the class\<close>

text \<open>\<^verbatim>\<open>def deserialize( self ): return self.completion\<close>\<close>

definition deserialize :: "ref \<Rightarrow> world \<Rightarrow> string option \<times> world" where
  "deserialize self w = (completion (store w self), w)"

text \<open>
  \<^verbatim>\<open>
  @property
  def required_hash_fields(self) -> List[str]:
      return ['messages']
  \<close>
  This is the body of the property as the class body of the notebook writes it.
\<close>

definition required_hash_fields_property :: "ref \<Rightarrow> world \<Rightarrow> string list \<times> world" where
  "required_hash_fields_property self w = ([''messages''], w)"

text \<open>
  The attribute \<^verbatim>\<open>self.required_hash_fields\<close> of an instance. The base class
  \<^verbatim>\<open>bt.Synapse\<close> is the library's and not in the notebook, so the list-valued fields
  that it declares, with their defaults, are the parameter \<open>base\<close>. When the class is
  created, an entry of the class body whose name is the name of a field, an inherited
  one included, is removed from the class; the attribute is then the value of the
  field, which for an object constructed as the notebook does (without a keyword of
  that name) is the field's default. Only when the base class has no field of that
  name does the property of the class body answer.
\<close>

definition required_hash_fields ::
  "(string \<rightharpoonup> string list) \<Rightarrow> ref \<Rightarrow> world \<Rightarrow> string list \<times> world" where
  "required_hash_fields base self w =
     (case base ''required_hash_fields'' of
        Some dflt \<Rightarrow> (dflt, w)
      | None \<Rightarrow> required_hash_fields_property self w)"

text \<open>
  The declaration of the library's base class under that name: a field
  \<^verbatim>\<open>required_hash_fields\<close> with \<^verbatim>\<open>default=[]\<close> and \<^verbatim>\<open>allow_mutation=False\<close>.
\<close>

definition Synapse_fields :: "string \<rightharpoonup> string list" where
  "Synapse_fields = [''required_hash_fields'' \<mapsto> []]"

subsection \<open>The three callbacks\<close>

text \<open>
  \<^verbatim>\<open>
  def prompt( synapse: Prompting ) -> Prompting:
      bt.logging.debug("In prompt!")
      synapse.completion = "I am a chatbot"
      return synapse
  \<close>
\<close>

definition prompt :: "ref \<Rightarrow> world \<Rightarrow> (error + ref) \<times> world" where
  "prompt synapse w =
     (let w1 = w\<lparr>debug_log := debug_log w @ [''In prompt!'']\<rparr> in
      case setattr synapse ''completion'' (PyStr ''I am a chatbot'') w1 of
        (Inl e, w2) \<Rightarrow> (Inl e, w2)
      | (Inr _, w2) \<Rightarrow> (Inr synapse, w2))"

text \<open>
  \<^verbatim>\<open>
  def blacklist( synapse: Prompting ) -> Tuple[bool, str]:
      return False, ""
  \<close>
  The docstring: the boolean indicates whether the synapse is blacklisted, the string
  gives the reason.
\<close>

definition blacklist :: "ref \<Rightarrow> world \<Rightarrow> (bool \<times> string) \<times> world" where
  "blacklist synapse w = ((False, ''''), w)"

text \<open>
  \<^verbatim>\<open>
  def priority( synapse: Prompting ) -> float:
      return 0.0
  \<close>
  The only float of the notebook is the literal \<^verbatim>\<open>0.0\<close>, which is the real number 0.
\<close>

definition priority :: "ref \<Rightarrow> world \<Rightarrow> real \<times> world" where
  "priority synapse w = (0, w)"

subsection \<open>The integrity hash\<close>

text \<open>The values of the named attributes, in order; the first missing one raises.\<close>

fun getattrs :: "Prompting \<Rightarrow> string list \<Rightarrow> error + pyval list" where
  "getattrs obj [] = Inr []"
| "getattrs obj (f # fs) =
     (case getattr obj f of
        Inl e \<Rightarrow> Inl e
      | Inr v \<Rightarrow> (case getattrs obj fs of Inl e \<Rightarrow> Inl e | Inr vs \<Rightarrow> Inr (v # vs)))"

text \<open>
  Modelled from the spec: the hash computation itself belongs to the base class of the
  library and is not in the notebook, which only declares \<^verbatim>\<open>required_hash_fields\<close>
  (docstring: ``the list of fields that are essential for hash computation''). The
  spec's envelope has ``a derived integrity hash computed over the message sequence'',
  ``a pure function of messages''. The model applies a digest, which is a parameter,
  to the values of the fields that the attribute \<^verbatim>\<open>required_hash_fields\<close> of the
  instance names.
\<close>

definition body_hash ::
  "(string \<rightharpoonup> string list) \<Rightarrow> (pyval list \<Rightarrow> 'h) \<Rightarrow> ref \<Rightarrow> world \<Rightarrow> (error + 'h) \<times> world" where
  "body_hash base digest self w =
     (case required_hash_fields base self w of
        (names, w1) \<Rightarrow>
          (case getattrs (store w1 self) names of
             Inl e \<Rightarrow> (Inl e, w1)
           | Inr vs \<Rightarrow> (Inr (digest vs), w1)))"

subsection \<open>The serving node\<close>

text \<open>The error taxonomy of the spec (section 7).\<close>

datatype node_error =
    AdmissionRejected string
  | DuplicateRegistration
  | UnknownType
  | QueueSaturated
  | HandlerFailed
  | RequestTimedOut
  | TransportError

text \<open>
  Modelled from the spec: a Registration (section 3) holds, for one type tag, the handler
  \<open>handle(envelope) -> envelope\<close>, the admission filter
  \<open>evaluate(envelope) -> (allow, reason)\<close> and the priority function
  \<open>score(envelope) -> float\<close>. The server object of the library, to which the notebook
  attaches its callbacks, is not in the notebook.
\<close>

record registration =
  handle :: "ref \<Rightarrow> world \<Rightarrow> (error + ref) \<times> world"
  evaluate :: "ref \<Rightarrow> world \<Rightarrow> (bool \<times> string) \<times> world"
  score :: "ref \<Rightarrow> world \<Rightarrow> real \<times> world"

text \<open>
  Modelled from the spec: the Serving Node (section 4.4) owns the Registration table.
  \<open>handler_calls\<close> is the side-effect counter of section 8: the number of times the
  node has invoked a handler.
\<close>

record node =
  registry :: "string \<rightharpoonup> registration"
  handler_calls :: nat

text \<open>
  Modelled from the spec: \<open>register(type_tag, handler, admission_filter, priority_fn)\<close>
  fails with \<open>DuplicateRegistration\<close> if the tag is already registered.
\<close>

definition register :: "node \<Rightarrow> string \<Rightarrow> registration \<Rightarrow> node_error + node" where
  "register n tag reg =
     (case registry n tag of
        Some _ \<Rightarrow> Inl DuplicateRegistration
      | None \<Rightarrow> Inr (n\<lparr>registry := (registry n)(tag \<mapsto> reg)\<rparr>))"

text \<open>
  Modelled from the spec: \<open>submit(envelope)\<close> for one request, the library's dispatch
  not being in the notebook. The node looks up the registration of the envelope's type
  tag (\<open>UnknownType\<close> if there is none) and runs the admission filter; \<open>allow = false\<close>
  short-circuits: the node returns the error response carrying the reason and invokes
  neither the scheduler nor the handler. Otherwise the envelope is scored, the handler
  is invoked (and counted), and its failure is surfaced as \<open>HandlerFailed\<close>. With a
  single request in flight the scheduler has nothing to order; worker pool, queue
  limit and timeout are not modelled, and a filter of the model returns, it does not raise.
\<close>

definition submit :: "node \<Rightarrow> string \<Rightarrow> ref \<Rightarrow> world \<Rightarrow> (node_error + ref) \<times> node \<times> world" where
  "submit n tag envelope w =
     (case registry n tag of
        None \<Rightarrow> (Inl UnknownType, n, w)
      | Some reg \<Rightarrow>
          (case evaluate reg envelope w of
             ((False, reason), w1) \<Rightarrow> (Inl (AdmissionRejected reason), n, w1)
           | ((True, reason), w1) \<Rightarrow>
               (case score reg envelope w1 of
                  (p, w2) \<Rightarrow>
                    (case handle reg envelope w2 of
                       (Inl e, w3) \<Rightarrow>
                         (Inl HandlerFailed, n\<lparr>handler_calls := Suc (handler_calls n)\<rparr>, w3)
                     | (Inr response, w3) \<Rightarrow>
                         (Inr response, n\<lparr>handler_calls := Suc (handler_calls n)\<rparr>, w3)))))"

text \<open>
  Modelled from the spec: the notebook's
  \<^verbatim>\<open>axon.attach(forward_fn=..., blacklist_fn=..., priority_fn=...)\<close> as a registration
  under the tag \<^verbatim>\<open>Prompting\<close> (the path of the recorded request). The notebook's
  blacklist function reports whether the synapse \<^emph>\<open>is blacklisted\<close> (its docstring),
  the spec's admission filter whether the envelope \<^emph>\<open>is allowed\<close>, so the flag is
  negated on the way; the recorded run of the notebook, where \<^verbatim>\<open>blacklist\<close> returns
  \<^verbatim>\<open>False\<close> and the request is served, shows this reading.
\<close>

definition attach ::
  "node \<Rightarrow> (ref \<Rightarrow> world \<Rightarrow> (error + ref) \<times> world) \<Rightarrow> (ref \<Rightarrow> world \<Rightarrow> (bool \<times> string) \<times> world) \<Rightarrow>
     (ref \<Rightarrow> world \<Rightarrow> real \<times> world) \<Rightarrow> node_error + node" where
  "attach n forward_fn blacklist_fn priority_fn =
     register n ''Prompting''
       \<lparr>handle = forward_fn,
        evaluate = (\<lambda>synapse w.
           case blacklist_fn synapse w of ((blacklisted, reason), w1) \<Rightarrow> ((\<not> blacklisted, reason), w1)),
        score = priority_fn\<rparr>"

subsection \<open>Fixtures\<close>

text \<open>A world in which nothing has been constructed or logged yet, and a node without registrations.\<close>

definition empty_world :: world where
  "empty_world =
     \<lparr>store = (\<lambda>_. \<lparr>roles = [], messages = [], completion = None\<rparr>), next_ref = 0, debug_log = []\<rparr>"

definition empty_node :: node where
  "empty_node = \<lparr>registry = Map.empty, handler_calls = 0\<rparr>"

text \<open>An admission filter, in the spec's sense, that allows nothing and gives a fixed reason.\<close>

definition deny :: "string \<Rightarrow> ref \<Rightarrow> world \<Rightarrow> (bool \<times> string) \<times> world" where
  "deny reason envelope w = ((False, reason), w)"

section \<open>Properties of the notebook's code\<close>

lemma assign_completion_str:
  "assign obj ''completion'' (PyStr s) = Inr (obj\<lparr>completion := Some s\<rparr>)"
  by (simp add: assign_def)

lemma prompt_eq:
  "prompt synapse w =
     (Inr synapse,
      w\<lparr>debug_log := debug_log w @ [''In prompt!''],
        store := (store w)(synapse := (store w synapse)\<lparr>completion := Some ''I am a chatbot''\<rparr>)\<rparr>)"
  by (simp add: prompt_def setattr_def assign_completion_str Let_def)

text \<open>
  C3. For every Prompting synapse, in every world, \<^verbatim>\<open>blacklist\<close> returns exactly
  \<^verbatim>\<open>(False, "")\<close>: its first component, which says whether the synapse is
  blacklisted, is never true, so no synapse is ever rejected by it.
\<close>

theorem blacklist_returns_False_empty:
  "fst (blacklist synapse w) = (False, '''') \<and> \<not> fst (fst (blacklist synapse w))"
  by (simp add: blacklist_def)

lemma Prompting_init_roles_messages:
  "Prompting_init [''roles'' \<mapsto> PyList r, ''messages'' \<mapsto> PyList m] =
     Inr \<lparr>roles = r, messages = m, completion = None\<rparr>"
  by (simp add: Prompting_init_def)

lemma Prompting_new_roles_messages:
  "Prompting_new [''roles'' \<mapsto> PyList r, ''messages'' \<mapsto> PyList m] w =
     (Inr (next_ref w),
      w\<lparr>store := (store w)(next_ref w := \<lparr>roles = r, messages = m, completion = None\<rparr>),
        next_ref := Suc (next_ref w)\<rparr>)"
  by (simp add: Prompting_new_def Prompting_init_roles_messages)

text \<open>
  C1. For every Prompting synapse, \<^verbatim>\<open>prompt\<close> raises nothing and returns the very
  synapse it was given; afterwards the completion of that synapse is
  \<^verbatim>\<open>"I am a chatbot"\<close> and its roles and messages are what they were before the call.
  In particular a synapse constructed from the lists \<open>r\<close> and \<open>m\<close> and then handled
  has roles \<open>r\<close>, messages \<open>m\<close> and that completion.
\<close>

theorem prompt_sets_completion_only:
  "fst (prompt synapse w) = Inr synapse \<and>
   completion (store (snd (prompt synapse w)) synapse) = Some ''I am a chatbot'' \<and>
   roles (store (snd (prompt synapse w)) synapse) = roles (store w synapse) \<and>
   messages (store (snd (prompt synapse w)) synapse) = messages (store w synapse) \<and>
   (case Prompting_new [''roles'' \<mapsto> PyList r, ''messages'' \<mapsto> PyList m] w of
      (made, w1) \<Rightarrow>
        made = Inr (next_ref w) \<and>
        store (snd (prompt (next_ref w) w1)) (next_ref w) =
          \<lparr>roles = r, messages = m, completion = Some ''I am a chatbot''\<rparr>)"
  by (simp add: prompt_eq Prompting_new_roles_messages)

text \<open>
  A plain assignment \<^verbatim>\<open>synapse.roles = v\<close> or \<^verbatim>\<open>synapse.messages = v\<close> raises the
  \<^verbatim>\<open>TypeError\<close> of a field that does not allow mutation and leaves the whole world
  as it was, for every synapse, world and value.
\<close>

lemma plain_assignment_refused:
  "setattr synapse ''roles'' v w = (Inl (TypeError ''roles''), w) \<and>
   setattr synapse ''messages'' v w = (Inl (TypeError ''messages''), w)"
  by (simp add: setattr_def assign_def)

lemma setattr_list_field:
  "setattr synapse (field_name f) v w = (Inl (TypeError (field_name f)), w)"
  by (cases f) (simp_all add: setattr_def assign_def)

lemma augmented_assign_eq:
  "augmented_assign synapse f xs w =
     (Inl (TypeError (field_name f)),
      w\<lparr>store := (store w)(synapse := extend_in_place f xs (store w synapse))\<rparr>)"
  by (simp add: augmented_assign_def Let_def setattr_list_field)

text \<open>
  C2. The class docstring calls roles and messages ``Immutable post-instantiation'',
  but the stored values can change after construction. The augmented assignment
  \<^verbatim>\<open>synapse.roles += xs\<close> is rejected with the \<^verbatim>\<open>TypeError\<close> and nevertheless leaves
  the stored roles extended by \<open>xs\<close>, and the same holds for messages;
  \<^verbatim>\<open>synapse.roles.append(x)\<close> extends them with no error at all. For the synapse
  constructed with roles \<^verbatim>\<open>["user"]\<close> and messages \<^verbatim>\<open>["ping"]\<close>, after the rejected
  \<^verbatim>\<open>synapse.roles += ["admin"]\<close> the stored roles are \<^verbatim>\<open>["user", "admin"]\<close>.
\<close>

theorem augmented_assignment_changes_stored_list:
  "fst (augmented_assign synapse Roles xs w) = Inl (TypeError ''roles'') \<and>
   roles (store (snd (augmented_assign synapse Roles xs w)) synapse) = roles (store w synapse) @ xs \<and>
   fst (augmented_assign synapse Messages xs w) = Inl (TypeError ''messages'') \<and>
   messages (store (snd (augmented_assign synapse Messages xs w)) synapse) =
     messages (store w synapse) @ xs \<and>
   roles (store (snd (list_append synapse Roles x w)) synapse) = roles (store w synapse) @ [x] \<and>
   (case Prompting_new [''roles'' \<mapsto> PyList [''user''], ''messages'' \<mapsto> PyList [''ping'']]
           empty_world of
      (made, w1) \<Rightarrow>
        made = Inr 0 \<and> roles (store w1 0) = [''user''] \<and>
        fst (augmented_assign 0 Roles [''admin''] w1) = Inl (TypeError ''roles'') \<and>
        roles (store (snd (augmented_assign 0 Roles [''admin''] w1)) 0) = [''user'', ''admin''])"
  by (simp add: augmented_assign_eq list_append_def Prompting_new_roles_messages empty_world_def)

lemma required_hash_fields_Synapse:
  "required_hash_fields Synapse_fields self w = ([], w)"
  by (simp add: required_hash_fields_def Synapse_fields_def)

lemma body_hash_Synapse:
  "body_hash Synapse_fields digest self w = (Inr (digest []), w)"
  by (simp add: body_hash_def required_hash_fields_Synapse)

lemma body_hash_without_base_field:
  "body_hash Map.empty digest self w = (Inr (digest [PyList (messages (store w self))]), w)"
  by (simp add: body_hash_def required_hash_fields_def required_hash_fields_property_def getattr_def)

text \<open>
  C5. The property of the class body returns \<^verbatim>\<open>['messages']\<close>, but it is not what an
  instance answers: under the library's base class, which declares a field of the same
  name with default \<^verbatim>\<open>[]\<close>, the attribute \<^verbatim>\<open>required_hash_fields\<close> of every Prompting
  synapse is \<^verbatim>\<open>[]\<close>. The integrity hash is then the digest of no field at all: it is
  the same for every synapse, and in particular the synapse with messages
  \<^verbatim>\<open>["ping"]\<close> and the synapse with messages \<^verbatim>\<open>["pong"]\<close> have the same hash. Were
  there no such field in the base class, the attribute would be \<^verbatim>\<open>['messages']\<close>.
\<close>

theorem required_hash_fields_shadowed_by_base_field:
  "fst (required_hash_fields_property self w) = [''messages''] \<and>
   fst (required_hash_fields Map.empty self w) = [''messages''] \<and>
   fst (required_hash_fields Synapse_fields self w) = [] \<and>
   fst (body_hash Synapse_fields digest self w) = Inr (digest []) \<and>
   fst (body_hash Synapse_fields digest 0
          (snd (Prompting_new [''roles'' \<mapsto> PyList [''user''], ''messages'' \<mapsto> PyList [''ping'']]
             empty_world))) =
   fst (body_hash Synapse_fields digest 0
          (snd (Prompting_new [''roles'' \<mapsto> PyList [''user''], ''messages'' \<mapsto> PyList [''pong'']]
             empty_world)))"
proof -
  have property: "fst (required_hash_fields_property self w) = [''messages'']"
    by (simp add: required_hash_fields_property_def)
  have unshadowed: "fst (required_hash_fields Map.empty self w) = [''messages'']"
    by (simp add: required_hash_fields_def required_hash_fields_property_def)
  have shadowed: "fst (required_hash_fields Synapse_fields self w) = []"
    by (simp add: required_hash_fields_Synapse)
  show ?thesis
    using property unshadowed shadowed by (simp add: body_hash_Synapse)
qed

text \<open>
  C6. For every Prompting synapse, in every world, \<^verbatim>\<open>priority\<close> returns exactly 0, so
  any two synapses, in whatever worlds, get the same score.
\<close>

theorem priority_is_zero:
  "fst (priority synapse w) = 0 \<and> fst (priority synapse1 w1) = fst (priority synapse2 w2)"
  by (simp add: priority_def)

text \<open>
  C7. A Prompting synapse constructed from a roles list and a messages list only is
  valid and its completion is \<^verbatim>\<open>None\<close>, both as the object built and as the object
  stored under the new reference.
\<close>

theorem fresh_completion_unset:
  "Prompting_init [''roles'' \<mapsto> PyList r, ''messages'' \<mapsto> PyList m] =
     Inr \<lparr>roles = r, messages = m, completion = None\<rparr> \<and>
   (case Prompting_new [''roles'' \<mapsto> PyList r, ''messages'' \<mapsto> PyList m] w of
      (made, w1) \<Rightarrow> made = Inr (next_ref w) \<and> completion (store w1 (next_ref w)) = None)"
  by (simp add: Prompting_init_roles_messages Prompting_new_roles_messages)

text \<open>
  C8. For every Prompting synapse, \<^verbatim>\<open>blacklist\<close> leaves the world exactly as it found
  it: the roles, the messages and the completion of the synapse (and every other object
  and the log) are the same after the call as before.
\<close>

theorem blacklist_leaves_world:
  "snd (blacklist synapse w) = w \<and>
   roles (store (snd (blacklist synapse w)) synapse) = roles (store w synapse) \<and>
   messages (store (snd (blacklist synapse w)) synapse) = messages (store w synapse) \<and>
   completion (store (snd (blacklist synapse w)) synapse) = completion (store w synapse)"
  by (simp add: blacklist_def)

text \<open>
  C9. For every Prompting synapse, \<^verbatim>\<open>deserialize\<close> returns exactly its completion
  field; for a synapse that has just been constructed from roles and messages and has
  not been handled, that is \<^verbatim>\<open>None\<close>.
\<close>

theorem deserialize_is_completion:
  "fst (deserialize self w) = completion (store w self) \<and>
   (case Prompting_new [''roles'' \<mapsto> PyList r, ''messages'' \<mapsto> PyList m] w of
      (made, w1) \<Rightarrow> made = Inr (next_ref w) \<and> fst (deserialize (next_ref w) w1) = None)"
  by (simp add: deserialize_def Prompting_new_roles_messages)

text \<open>
  C10. The completion that \<^verbatim>\<open>prompt\<close> writes does not depend on the request: for any
  two synapses, in any two worlds (so whatever their roles and messages), the completion
  after \<^verbatim>\<open>prompt\<close> is the same, the constant \<^verbatim>\<open>"I am a chatbot"\<close>.
\<close>

theorem completion_independent_of_request:
  "completion (store (snd (prompt synapse1 w1)) synapse1) =
     completion (store (snd (prompt synapse2 w2)) synapse2) \<and>
   completion (store (snd (prompt synapse1 w1)) synapse1) = Some ''I am a chatbot''"
  by (simp add: prompt_eq)

section \<open>Properties of the serving node\<close>

text \<open>
  The recorded run of the notebook: the three callbacks are attached, the request
  \<^verbatim>\<open>Prompting(roles=["user"], messages=["hello, who are you?"])\<close> is submitted, and the
  response is that synapse with the completion \<^verbatim>\<open>'I am a chatbot'\<close>, the handler
  having logged \<^verbatim>\<open>In prompt!\<close> once.
\<close>

lemma notebook_run:
  "attach empty_node prompt blacklist priority = Inr axon \<Longrightarrow>
   Prompting_new [''roles'' \<mapsto> PyList [''user''],
                  ''messages'' \<mapsto> PyList [''hello, who are you?'']] empty_world = (Inr syn, w1) \<Longrightarrow>
   submit axon ''Prompting'' syn w1 = (resp, axon', w2) \<Longrightarrow>
   resp = Inr syn \<and> handler_calls axon' = 1 \<and> debug_log w2 = [''In prompt!''] \<and>
   store w2 syn =
     \<lparr>roles = [''user''], messages = [''hello, who are you?''],
      completion = Some ''I am a chatbot''\<rparr>"
  by (auto simp add: attach_def register_def empty_node_def empty_world_def
      Prompting_new_roles_messages submit_def blacklist_def priority_def prompt_eq)

text \<open>
  C4. For every envelope, if the admission filter registered for its type tag returns
  \<open>(false, r)\<close>, then \<open>submit\<close> returns the error \<open>AdmissionRejected r\<close>, the node is
  as before (its count of handler invocations has not moved) and the world is the one
  the filter left: the handler has not run.
\<close>

theorem rejected_admission_skips_handler:
  assumes "registry n tag = Some reg"
    and "evaluate reg envelope w = ((False, r), w1)"
  shows "submit n tag envelope w = (Inl (AdmissionRejected r), n, w1) \<and>
         handler_calls (fst (snd (submit n tag envelope w))) = handler_calls n"
  using assms by (simp add: submit_def)

text \<open>
  The theorem at a node whose filter for \<^verbatim>\<open>Prompting\<close> denies everything and whose
  handler is \<^verbatim>\<open>prompt\<close>, for the request with roles \<^verbatim>\<open>["user"]\<close> and messages
  \<^verbatim>\<open>["ping"]\<close>: the request is rejected with the filter's reason, no handler
  invocation is counted, nothing is logged and the completion stays unset.
\<close>

theorem rejected_admission_skips_handler_witness:
  "registry
     \<lparr>registry = [''Prompting'' \<mapsto> \<lparr>handle = prompt, evaluate = deny ''denied'', score = priority\<rparr>],
      handler_calls = 0\<rparr> ''Prompting'' =
     Some \<lparr>handle = prompt, evaluate = deny ''denied'', score = priority\<rparr> \<and>
   fst (evaluate \<lparr>handle = prompt, evaluate = deny ''denied'', score = priority\<rparr> 0
     (snd (Prompting_new [''roles'' \<mapsto> PyList [''user''], ''messages'' \<mapsto> PyList [''ping'']]
        empty_world))) = (False, ''denied'') \<and>
   (case submit
      \<lparr>registry = [''Prompting'' \<mapsto> \<lparr>handle = prompt, evaluate = deny ''denied'', score = priority\<rparr>],
       handler_calls = 0\<rparr> ''Prompting'' 0
      (snd (Prompting_new [''roles'' \<mapsto> PyList [''user''], ''messages'' \<mapsto> PyList [''ping'']]
         empty_world)) of
      (response, n', w') \<Rightarrow>
        response = Inl (AdmissionRejected ''denied'') \<and> handler_calls n' = 0 \<and>
        debug_log w' = [] \<and>
        store w' 0 = \<lparr>roles = [''user''], messages = [''ping''], completion = None\<rparr>)"
proof -
  let ?reg = "\<lparr>handle = prompt, evaluate = deny ''denied'', score = priority\<rparr>"
  let ?n = "\<lparr>registry = [''Prompting'' \<mapsto> ?reg], handler_calls = 0\<rparr>"
  let ?w = "snd (Prompting_new [''roles'' \<mapsto> PyList [''user''], ''messages'' \<mapsto> PyList [''ping'']]
                   empty_world)"
  have reg: "registry ?n ''Prompting'' = Some ?reg"
    by simp
  have ev: "evaluate ?reg 0 ?w = ((False, ''denied''), ?w)"
    by (simp add: deny_def)
  have w: "?w = \<lparr>store = (\<lambda>_. \<lparr>roles = [], messages = [], completion = None\<rparr>)
                         (0 := \<lparr>roles = [''user''], messages = [''ping''], completion = None\<rparr>),
                  next_ref = Suc 0, debug_log = []\<rparr>"
    by (simp add: Prompting_new_roles_messages empty_world_def)
  from rejected_admission_skips_handler [OF reg ev]
  have "submit ?n ''Prompting'' 0 ?w = (Inl (AdmissionRejected ''denied''), ?n, ?w)"
    by simp
  then show ?thesis
    using reg ev w by simp
qed

end
